theory Spec2Isabelle
  imports Main
begin

section \<open>Vanguard CSV adapter: a shallow embedding of \<^verbatim>\<open>vanguard.py\<close>\<close>

text \<open>
  The adapter turns the rows of a Vanguard CSV export into trades and positions.
  Python strings are modelled as HOL strings, one \<^typ>\<open>char\<close> per code point
  (code points 0 to 255). Exceptions are values of type \<open>error\<close>; a function that
  can raise returns \<open>error + 'a\<close>, with \<open>Inl\<close> for the exception.
\<close>

subsection \<open>Exceptions\<close>

datatype error =
    InvalidOperation    \<comment> \<open>\<^verbatim>\<open>decimal.InvalidOperation\<close>, raised by \<^verbatim>\<open>Decimal(str)\<close>\<close>
  | ValueError          \<comment> \<open>raised by \<^verbatim>\<open>datetime.strptime\<close> and by the domain constructors\<close>
  | AssertionError      \<comment> \<open>a failed \<^verbatim>\<open>assert\<close>\<close>
  | TypeError           \<comment> \<open>raised by a named tuple's \<^verbatim>\<open>_make\<close> on a wrong arity\<close>
  | KeyError            \<comment> \<open>a dictionary lookup of a missing key\<close>

text \<open>Sequencing of two computations that may raise: the first exception wins.\<close>

definition andThen :: "error + 'a \<Rightarrow> ('a \<Rightarrow> error + 'b) \<Rightarrow> error + 'b" where
  "andThen m f = (case m of Inl e \<Rightarrow> Inl e | Inr x \<Rightarrow> f x)"

definition orRaise :: "'a option \<Rightarrow> error \<Rightarrow> error + 'a" where
  "orRaise m e = (case m of None \<Rightarrow> Inl e | Some x \<Rightarrow> Inr x)"

subsection \<open>The regular expression of \<^verbatim>\<open>guessInstrumentForInvestmentName\<close>\<close>

text \<open>
  The fragment of Python's \<^verbatim>\<open>re\<close> syntax the source uses: the anchors \<^verbatim>\<open>^\<close> and
  \<^verbatim>\<open>$\<close>, a character class taken once, and a character class taken one or more times.
  No flag is set: \<^verbatim>\<open>.\<close> is every character but the newline, \<^verbatim>\<open>\s\<close> is Unicode
  white space, \<^verbatim>\<open>^\<close> holds at the start of the subject only, and \<^verbatim>\<open>$\<close> holds at
  the end of the subject or just before a newline that ends it.
\<close>

definition newline :: char where
  "newline = CHR 0x0A"

definition isspace :: "char \<Rightarrow> bool" where
  "isspace c = (of_char c \<in> {9, 10, 11, 12, 13, 28, 29, 30, 31, 32, 133, 160 :: nat})"

datatype charClass = AnyChar | Whitespace | Literal char

fun inClass :: "charClass \<Rightarrow> char \<Rightarrow> bool" where
  "inClass AnyChar c = (c \<noteq> newline)"
| "inClass Whitespace c = isspace c"
| "inClass (Literal l) c = (c = l)"

datatype reItem = Bol | Eol | One charClass | OneOrMore charClass

text \<open>
  \<open>matchItems items atStart s\<close>: the items match a prefix of the rest \<open>s\<close> of the
  subject; \<open>atStart\<close> tells whether nothing of the subject has been consumed yet. This is
  \<^verbatim>\<open>re.match\<close>: the match starts at the start of the subject and need not reach its end.
\<close>

fun matchItems :: "reItem list \<Rightarrow> bool \<Rightarrow> string \<Rightarrow> bool" where
  "matchItems [] atStart s = True"
| "matchItems (Bol # items) atStart s = (atStart \<and> matchItems items atStart s)"
| "matchItems (Eol # items) atStart s = ((s = [] \<or> s = [newline]) \<and> matchItems items atStart s)"
| "matchItems (One cls # items) atStart [] = False"
| "matchItems (One cls # items) atStart (c # cs) = (inClass cls c \<and> matchItems items False cs)"
| "matchItems (OneOrMore cls # items) atStart [] = False"
| "matchItems (OneOrMore cls # items) atStart (c # cs) =
     (inClass cls c \<and> (matchItems (OneOrMore cls # items) False cs \<or> matchItems items False cs))"

definition re_match :: "reItem list \<Rightarrow> string \<Rightarrow> bool" where
  "re_match items s = matchItems items True s"

text \<open>The pattern \<^verbatim>\<open>r'^.+\s\%\s.+$'\<close>.\<close>

definition bondNamePattern :: "reItem list" where
  "bondNamePattern =
     [Bol, OneOrMore AnyChar, One Whitespace, One (Literal (CHR ''%'')), One Whitespace,
      OneOrMore AnyChar, Eol]"

subsection \<open>The domain model the adapter builds\<close>

text \<open>
  The classes of the domain model are collaborators from another package. A record here
  holds the arguments the adapter passes to the constructor of the class; whether the
  constructor accepts them is the collaborator's decision (see \<open>collaborators\<close> below).
  Decimal numbers and dates are values of the standard library: their types are the
  parameters \<open>'d\<close> and \<open>'t\<close>.
\<close>

datatype Currency = USD

datatype Instrument = Stock string Currency | Bond string Currency

fun symbolOf :: "Instrument \<Rightarrow> string" where
  "symbolOf (Stock s c) = s"
| "symbolOf (Bond s c) = s"

datatype TradeFlag = OPEN | CLOSE | DRIP | ASSIGNED_OR_EXERCISED | EXPIRED

text \<open>A value of the flag enumeration \<^verbatim>\<open>TradeFlags\<close> is a set of flags; \<^verbatim>\<open>|\<close> is the union.\<close>

type_synonym TradeFlags = "TradeFlag set"

record 'd Cash =
  currency :: Currency
  cashQuantity :: 'd

record ('d, 't) Trade =
  date :: 't
  instrument :: Instrument
  quantity :: 'd
  amount :: "'d Cash"
  fees :: "'d Cash"
  flags :: TradeFlags

record ('d, 't) DividendPayment =
  paymentDate :: 't
  stock :: Instrument
  proceeds :: "'d Cash"

datatype ('d, 't) Activity =
    TradeActivity "('d, 't) Trade"
  | DividendPaymentActivity "('d, 't) DividendPayment"

record 'd Position =
  positionInstrument :: Instrument
  positionQuantity :: 'd
  costBasis :: "'d Cash"

text \<open>
  What the adapter imports and this repository does not define: the standard library's
  \<^verbatim>\<open>Decimal(str)\<close>, the product \<^verbatim>\<open>Decimal * (-1)\<close> and
  \<^verbatim>\<open>datetime.strptime(str, '%m/%d/%Y')\<close>; the validation of each domain constructor
  (\<^verbatim>\<open>Stock(symbol, currency=USD)\<close>, \<^verbatim>\<open>Bond(name, currency=USD, validateSymbol=False)\<close>,
  \<^verbatim>\<open>Cash\<close>, \<^verbatim>\<open>Trade\<close>, \<^verbatim>\<open>Position\<close>), which raises on arguments it rejects; and
  \<^verbatim>\<open>realizedBasisForSymbol\<close>. They are parameters of the model. \<open>Decimal\<close>,
  \<open>timesMinusOne\<close> and \<open>strptime\<close> return \<open>None\<close> where the library raises
  (\<^verbatim>\<open>InvalidOperation\<close> for the two decimal operations, \<^verbatim>\<open>ValueError\<close> for the date);
  a constructor that rejects its arguments raises \<^verbatim>\<open>ValueError\<close>.
\<close>

record ('d, 't) collaborators =
  Decimal :: "string \<Rightarrow> 'd option"
  timesMinusOne :: "'d \<Rightarrow> 'd option"
  strptime :: "string \<Rightarrow> 't option"
  validStock :: "string \<Rightarrow> bool"
  validBond :: "string \<Rightarrow> bool"
  validCash :: "'d Cash \<Rightarrow> bool"
  validTrade :: "('d, 't) Trade \<Rightarrow> bool"
  validPosition :: "'d Position \<Rightarrow> bool"
  realizedBasisForSymbol :: "string \<Rightarrow> ('d, 't) Activity list \<Rightarrow> 'd Cash option"

definition newStock :: "('d, 't) collaborators \<Rightarrow> string \<Rightarrow> error + Instrument" where
  "newStock K s = (if validStock K s then Inr (Stock s USD) else Inl ValueError)"

definition newBond :: "('d, 't) collaborators \<Rightarrow> string \<Rightarrow> error + Instrument" where
  "newBond K s = (if validBond K s then Inr (Bond s USD) else Inl ValueError)"

definition newCash :: "('d, 't) collaborators \<Rightarrow> 'd \<Rightarrow> error + 'd Cash" where
  "newCash K q =
     (let c = \<lparr>currency = USD, cashQuantity = q\<rparr>
      in if validCash K c then Inr c else Inl ValueError)"

definition newTrade :: "('d, 't) collaborators \<Rightarrow> ('d, 't) Trade \<Rightarrow> error + ('d, 't) Trade" where
  "newTrade K tr = (if validTrade K tr then Inr tr else Inl ValueError)"

definition newPosition :: "('d, 't) collaborators \<Rightarrow> 'd Position \<Rightarrow> error + 'd Position" where
  "newPosition K p = (if validPosition K p then Inr p else Inl ValueError)"

subsection \<open>Instruments and position rows\<close>

record VanguardPosition =
  investmentName :: string
  symbol :: string
  shares :: string
  sharePrice :: string
  totalValue :: string

definition guessInstrumentForInvestmentName ::
    "('d, 't) collaborators \<Rightarrow> string \<Rightarrow> error + Instrument" where
  "guessInstrumentForInvestmentName K name =
     (if re_match bondNamePattern name then newBond K name else newStock K name)"

text \<open>
  \<^verbatim>\<open>assert realizedBasis\<close> fails when the lookup returned \<^verbatim>\<open>None\<close>; the steps run in
  the order of the source: the instrument, the quantity, the basis, the position.
\<close>

definition parseVanguardPosition ::
    "('d, 't) collaborators \<Rightarrow> VanguardPosition \<Rightarrow> ('d, 't) Activity list \<Rightarrow> error + 'd Position" where
  "parseVanguardPosition K p activity =
     andThen (if length (VanguardPosition.symbol p) > 0
              then newStock K (VanguardPosition.symbol p)
              else guessInstrumentForInvestmentName K (VanguardPosition.investmentName p))
       (\<lambda>instrument.
     andThen (orRaise (Decimal K (VanguardPosition.shares p)) InvalidOperation)
       (\<lambda>qty.
     andThen (orRaise (realizedBasisForSymbol K (symbolOf instrument) activity) AssertionError)
       (\<lambda>realizedBasis.
     newPosition K \<lparr>positionInstrument = instrument, positionQuantity = qty,
                     costBasis = realizedBasis\<rparr>)))"

definition parseVanguardPositionAndActivity ::
    "('d, 't) collaborators \<Rightarrow> VanguardPosition \<times> ('d, 't) Activity list \<Rightarrow> error + 'd Position" where
  "parseVanguardPositionAndActivity K vpb = parseVanguardPosition K (fst vpb) (snd vpb)"

subsection \<open>Transaction rows\<close>

record VanguardTransaction =
  tradeDate :: string
  settlementDate :: string
  transactionType :: string
  transactionDescription :: string
  investmentName :: string
  symbol :: string
  shares :: string
  sharePrice :: string
  principalAmount :: string
  commissionFees :: string
  netAmount :: string
  accruedInterest :: string
  accountType :: string

text \<open>
  The arguments of \<^verbatim>\<open>Trade(...)\<close> are evaluated in the order they are written: the date,
  then the two \<^verbatim>\<open>Cash\<close> values, then the constructor itself.
\<close>

definition forceParseVanguardTransaction ::
    "('d, 't) collaborators \<Rightarrow> VanguardTransaction \<Rightarrow> TradeFlags \<Rightarrow> error + ('d, 't) Trade" where
  "forceParseVanguardTransaction K t fl =
     andThen (if length (VanguardTransaction.symbol t) > 0
              then newStock K (VanguardTransaction.symbol t)
              else guessInstrumentForInvestmentName K (VanguardTransaction.investmentName t))
       (\<lambda>instrument.
     andThen (orRaise (Decimal K (commissionFees t)) InvalidOperation)
       (\<lambda>totalFees.
     andThen (orRaise (Decimal K (principalAmount t)) InvalidOperation)
       (\<lambda>amount.
     andThen (if transactionDescription t = ''Redemption''
              then andThen (orRaise (Decimal K (VanguardTransaction.shares t)) InvalidOperation)
                     (\<lambda>d. orRaise (timesMinusOne K d) InvalidOperation)
              else orRaise (Decimal K (VanguardTransaction.shares t)) InvalidOperation)
       (\<lambda>shares.
     andThen (orRaise (strptime K (tradeDate t)) ValueError)
       (\<lambda>date.
     andThen (newCash K amount)
       (\<lambda>amountCash.
     andThen (newCash K totalFees)
       (\<lambda>feesCash.
     newTrade K \<lparr>date = date, instrument = instrument, quantity = shares,
                  amount = amountCash, fees = feesCash, flags = fl\<rparr>)))))))"

definition validTransactionTypes :: "string set" where
  "validTransactionTypes =
     set [''Buy'', ''Sell'', ''Reinvestment'', ''Corp Action (Redemption)'',
          ''Transfer (outgoing)'']"

definition flagsByTransactionType :: "string \<rightharpoonup> TradeFlags" where
  "flagsByTransactionType =
     map_of [(''Buy'', {OPEN}),
             (''Sell'', {CLOSE}),
             (''Reinvestment'', {OPEN} \<union> {DRIP}),
             (''Corp Action (Redemption)'', {CLOSE}),
             (''Transfer (outgoing)'', {CLOSE})]"

definition parseVanguardTransaction ::
    "('d, 't) collaborators \<Rightarrow> VanguardTransaction \<Rightarrow> error + ('d, 't) Trade option" where
  "parseVanguardTransaction K t =
     (if transactionType t \<notin> validTransactionTypes then Inr None
      else andThen (orRaise (flagsByTransactionType (transactionType t)) KeyError)
             (\<lambda>fl. andThen (forceParseVanguardTransaction K t fl) (\<lambda>tr. Inr (Some tr))))"

subsection \<open>Slices and named tuples\<close>

text \<open>
  A Python slice \<^verbatim>\<open>xs[i:j]\<close>: a negative bound counts from the end, and both bounds are
  clamped to the length of the list, so a slice never raises.
\<close>

definition clampIndex :: "int \<Rightarrow> nat \<Rightarrow> nat" where
  "clampIndex i n = (if i < 0 then nat (max 0 (int n + i)) else min (nat i) n)"

definition slice :: "'a list \<Rightarrow> int \<Rightarrow> int \<Rightarrow> 'a list" where
  "slice xs i j =
     (let a = clampIndex i (length xs); b = clampIndex j (length xs)
      in take (b - a) (drop a xs))"

text \<open>
  \<^verbatim>\<open>_make\<close> of a named tuple binds the cells to the fields by position and raises
  \<^verbatim>\<open>TypeError\<close> unless there are as many cells as fields.
\<close>

definition VanguardPosition_make :: "string list \<Rightarrow> error + VanguardPosition" where
  "VanguardPosition_make r =
     (if length r \<noteq> 5 then Inl TypeError
      else Inr \<lparr>VanguardPosition.investmentName = r ! 0, VanguardPosition.symbol = r ! 1,
                VanguardPosition.shares = r ! 2, VanguardPosition.sharePrice = r ! 3,
                totalValue = r ! 4\<rparr>)"

definition VanguardTransaction_make :: "string list \<Rightarrow> error + VanguardTransaction" where
  "VanguardTransaction_make r =
     (if length r \<noteq> 13 then Inl TypeError
      else Inr \<lparr>tradeDate = r ! 0, settlementDate = r ! 1, transactionType = r ! 2,
                transactionDescription = r ! 3, investmentName = r ! 4, symbol = r ! 5,
                shares = r ! 6, sharePrice = r ! 7, principalAmount = r ! 8,
                commissionFees = r ! 9, netAmount = r ! 10, accruedInterest = r ! 11,
                accountType = r ! 12\<rparr>)"

subsection \<open>The section slicer\<close>

record CSVSectionCriterion =
  startSectionRowMatch :: "string list"
  endSectionRowMatch :: "string list"
  rowFilter :: "string list \<Rightarrow> string list"

record CSVSectionResult =
  rows :: "string list list"

datatype sectionState = NOT_STARTED | IN_SECTION | ENDED

text \<open>
  Modelled from the spec: \<^verbatim>\<open>parseSectionsForCSV\<close> of the module \<^verbatim>\<open>csvsectionslicer\<close>,
  which the adapter imports. A row matches a pattern when its leading cells equal the
  pattern's strings. Each criterion starts as \<open>NOT_STARTED\<close>; the row that matches its
  start pattern opens its section and is not emitted; a row of an open section that
  matches a non-empty end pattern closes it and is not emitted; every other row of an
  open section is filtered and appended. The file is read once, the criteria advance
  independently, and there is one result per criterion, in the order of the criteria.
  The file is the list of the rows the CSV reader yields.
\<close>

definition rowMatches :: "string list \<Rightarrow> string list \<Rightarrow> bool" where
  "rowMatches pattern row = (take (length pattern) row = pattern)"

fun stepCriterion ::
    "CSVSectionCriterion \<Rightarrow> string list \<Rightarrow> sectionState \<times> string list list
       \<Rightarrow> sectionState \<times> string list list" where
  "stepCriterion c row (NOT_STARTED, acc) =
     (if rowMatches (startSectionRowMatch c) row then (IN_SECTION, acc) else (NOT_STARTED, acc))"
| "stepCriterion c row (IN_SECTION, acc) =
     (if endSectionRowMatch c \<noteq> [] \<and> rowMatches (endSectionRowMatch c) row
      then (ENDED, acc)
      else (IN_SECTION, acc @ [rowFilter c row]))"
| "stepCriterion c row (ENDED, acc) = (ENDED, acc)"

definition parseSectionsForCSV ::
    "string list list \<Rightarrow> CSVSectionCriterion list \<Rightarrow> CSVSectionResult list" where
  "parseSectionsForCSV csvfile criteria =
     map (\<lambda>st. \<lparr>rows = snd st\<rparr>)
       (foldl (\<lambda>states row. map2 (\<lambda>c st. stepCriterion c row st) criteria states)
          (replicate (length criteria) (NOT_STARTED, [])) csvfile)"

subsection \<open>The lenient row transformer\<close>

text \<open>
  Modelled from the spec: which failures of a conversion the lenient row transformer of
  the module \<^verbatim>\<open>parsetools\<close> treats as conversion failures. A bad date, a bad decimal and
  an argument a domain constructor rejects are; a failed hard assertion is not.
\<close>

definition isConversionError :: "error \<Rightarrow> bool" where
  "isConversionError e = (e = InvalidOperation \<or> e = ValueError)"

text \<open>
  Modelled from the spec: \<^verbatim>\<open>lenientParse\<close> of the module \<^verbatim>\<open>parsetools\<close>, which the
  adapter imports. The conversion is applied to the items in order. In strict mode the
  first failure propagates to the caller. In lenient mode an item whose conversion
  fails is discarded and the next one is converted. A result that is a null record is
  passed through in both modes. The input may be a generator: drawing an item can
  itself raise (\<open>Inl\<close>), outside the conversion, and that exception propagates in both
  modes. The adapter consumes the whole output at once, so an exception leaves no
  partial output.
\<close>

fun lenientParse :: "(error + 'a) list \<Rightarrow> ('a \<Rightarrow> error + 'b) \<Rightarrow> bool \<Rightarrow> error + 'b list" where
  "lenientParse [] transform lenient = Inr []"
| "lenientParse (Inl e # xs) transform lenient = Inl e"
| "lenientParse (Inr x # xs) transform lenient =
     (case transform x of
        Inr y \<Rightarrow> andThen (lenientParse xs transform lenient) (\<lambda>ys. Inr (y # ys))
      | Inl e \<Rightarrow>
          if lenient \<and> isConversionError e then lenientParse xs transform lenient
          else Inl e)"

subsection \<open>Parsing a file\<close>

text \<open>\<^verbatim>\<open>list(...)\<close> of a generator: the first item that raises aborts the whole list.\<close>

fun forceList :: "(error + 'a) list \<Rightarrow> error + 'a list" where
  "forceList [] = Inr []"
| "forceList (Inl e # xs) = Inl e"
| "forceList (Inr x # xs) = andThen (forceList xs) (\<lambda>ys. Inr (x # ys))"

text \<open>\<^verbatim>\<open>filter(None, ...)\<close> keeps the results that are records and drops \<^verbatim>\<open>None\<close>.\<close>

fun filterNone :: "'a option list \<Rightarrow> 'a list" where
  "filterNone [] = []"
| "filterNone (None # xs) = filterNone xs"
| "filterNone (Some x # xs) = x # filterNone xs"

definition positionsCriterion :: CSVSectionCriterion where
  "positionsCriterion =
     \<lparr>startSectionRowMatch = [''Account Number''],
      endSectionRowMatch = [],
      rowFilter = (\<lambda>r. slice r 1 6)\<rparr>"

text \<open>
  \<^verbatim>\<open>__parsePositions\<close>. The named tuples and their pairing with the activity are built
  eagerly, before any row is converted.
\<close>

definition parsePositions ::
    "('d, 't) collaborators \<Rightarrow> string list list \<Rightarrow> ('d, 't) Activity list \<Rightarrow> bool
       \<Rightarrow> error + 'd Position list" where
  "parsePositions K csvfile activity lenient =
     (let sections = parseSectionsForCSV csvfile [positionsCriterion]
      in if length sections = 0 then Inr []
         else andThen (forceList (map VanguardPosition_make (rows (sections ! 0))))
                (\<lambda>vanPositions.
                   lenientParse (map (\<lambda>pos. Inr (pos, activity)) vanPositions)
                     (parseVanguardPositionAndActivity K) lenient))"

definition transactionsCriterion :: CSVSectionCriterion where
  "transactionsCriterion =
     \<lparr>startSectionRowMatch = [''Account Number'', ''Trade Date''],
      endSectionRowMatch = [],
      rowFilter = (\<lambda>r. slice r 1 (- 1))\<rparr>"

text \<open>
  \<^verbatim>\<open>__parseTransactions\<close>. The named tuples are built by a generator, one at a time as
  the transformer draws them. Every record that is kept is a \<^verbatim>\<open>Trade\<close>.
\<close>

definition parseTransactions ::
    "('d, 't) collaborators \<Rightarrow> string list list \<Rightarrow> bool \<Rightarrow> error + ('d, 't) Activity list" where
  "parseTransactions K csvfile lenient =
     (let sections = parseSectionsForCSV csvfile [transactionsCriterion]
      in if length sections = 0 then Inr []
         else andThen (lenientParse (map VanguardTransaction_make (rows (sections ! 0)))
                         (parseVanguardTransaction K) lenient)
                (\<lambda>parsed. Inr (map TradeActivity (filterNone parsed))))"

definition parsePositionsAndActivity ::
    "('d, 't) collaborators \<Rightarrow> string list list \<Rightarrow> bool
       \<Rightarrow> error + ('d Position list \<times> ('d, 't) Activity list)" where
  "parsePositionsAndActivity K csvfile lenient =
     andThen (parseTransactions K csvfile lenient)
       (\<lambda>activity.
     andThen (parsePositions K csvfile activity lenient)
       (\<lambda>positions. Inr (positions, activity)))"

subsection \<open>The instrument rule in words\<close>

text \<open>
  Two readings of "the investment name matches the pattern X % Y", to be compared with
  the regular expression of the source. \<open>spacePercentName\<close>: some text, a space, a percent
  sign, a space, some text. \<open>percentName\<close>: some text without a line break, a white-space
  character, a percent sign, a white-space character, some text without a line break,
  and then the end of the name or one last line break.
\<close>

definition spacePercentName :: "string \<Rightarrow> bool" where
  "spacePercentName name \<longleftrightarrow> (\<exists>X Y. X \<noteq> [] \<and> Y \<noteq> [] \<and> name = X @ '' % '' @ Y)"

definition percentName :: "string \<Rightarrow> bool" where
  "percentName name \<longleftrightarrow>
     (\<exists>X s1 s2 Y E. name = X @ [s1] @ ''%'' @ [s2] @ Y @ E \<and>
        X \<noteq> [] \<and> newline \<notin> set X \<and> isspace s1 \<and> isspace s2 \<and>
        Y \<noteq> [] \<and> newline \<notin> set Y \<and> (E = [] \<or> E = [newline]))"

definition resolvedInstrument :: "string \<Rightarrow> string \<Rightarrow> Instrument" where
  "resolvedInstrument ticker name =
     (if ticker \<noteq> [] then Stock ticker USD
      else if percentName name then Bond name USD
      else Stock name USD)"

subsection \<open>An instance of the collaborators, for the examples\<close>

text \<open>
  The examples below run the adapter with these stand-ins: decimals are integers and
  \<^verbatim>\<open>Decimal(str)\<close> is a table of a few numerals, a date is a month, a day and a year and
  \<^verbatim>\<open>strptime\<close> is a table of one date, the constructors accept every non-empty symbol,
  and the realized basis of a symbol is the sum of amount and fees over its trades, or
  nothing when it has no trade.
\<close>

definition exampleCollaborators :: "(int, nat \<times> nat \<times> nat) collaborators" where
  "exampleCollaborators =
     \<lparr>Decimal = map_of [(''10'', 10), (''0'', 0), (''100.00'', 100), (''5'', 5)],
      timesMinusOne = (\<lambda>d. Some (d * (- 1))),
      strptime = map_of [(''01/02/2019'', (1, 2, 2019))],
      validStock = (\<lambda>s. s \<noteq> []),
      validBond = (\<lambda>s. s \<noteq> []),
      validCash = (\<lambda>c. True),
      validTrade = (\<lambda>tr. True),
      validPosition = (\<lambda>p. True),
      realizedBasisForSymbol = (\<lambda>ticker activity.
        case [tr. TradeActivity tr \<leftarrow> activity, symbolOf (Trade.instrument tr) = ticker] of
          [] \<Rightarrow> None
        | trs \<Rightarrow>
            Some \<lparr>currency = USD,
                  cashQuantity =
                    sum_list (map (\<lambda>tr. cashQuantity (amount tr) + cashQuantity (fees tr)) trs)\<rparr>)\<rparr>"

text \<open>A transaction row as the file has it, and the named tuple made of it.\<close>

definition exampleTransactionsHeader :: "string list" where
  "exampleTransactionsHeader =
     [''Account Number'', ''Trade Date'', ''Settlement Date'', ''Transaction Type'',
      ''Transaction Description'', ''Investment Name'', ''Symbol'', ''Shares'', ''Share Price'',
      ''Principal Amount'', ''Commission Fees'', ''Net Amount'', ''Accrued Interest'',
      ''Account Type'', []]"

definition exampleTransactionRow :: "string \<Rightarrow> string \<Rightarrow> string \<Rightarrow> string list" where
  "exampleTransactionRow ty descr sh =
     [''12345'', ''01/02/2019'', ''01/04/2019'', ty, descr, ''ABC Corp'', ''ABC'', sh, ''10'',
      ''100.00'', ''5'', ''105.00'', ''0'', ''CASH'', []]"

definition exampleTransaction :: "string \<Rightarrow> string \<Rightarrow> string \<Rightarrow> VanguardTransaction" where
  "exampleTransaction ty descr sh =
     \<lparr>tradeDate = ''01/02/2019'', settlementDate = ''01/04/2019'', transactionType = ty,
      transactionDescription = descr, investmentName = ''ABC Corp'', symbol = ''ABC'',
      shares = sh, sharePrice = ''10'', principalAmount = ''100.00'', commissionFees = ''5'',
      netAmount = ''105.00'', accruedInterest = ''0'', accountType = ''CASH''\<rparr>"

definition exampleTrade :: "int \<Rightarrow> TradeFlags \<Rightarrow> (int, nat \<times> nat \<times> nat) Trade" where
  "exampleTrade q fl =
     \<lparr>date = (1, 2, 2019), instrument = Stock ''ABC'' USD, quantity = q,
      amount = \<lparr>currency = USD, cashQuantity = 100\<rparr>,
      fees = \<lparr>currency = USD, cashQuantity = 5\<rparr>, flags = fl\<rparr>"

definition exampleActivity :: "(int, nat \<times> nat \<times> nat) Activity list" where
  "exampleActivity = [TradeActivity (exampleTrade 10 {OPEN})]"

text \<open>A position row as the file has it, and the named tuple made of it.\<close>

definition examplePositionsHeader :: "string list" where
  "examplePositionsHeader =
     [''Account Number'', ''Investment Name'', ''Symbol'', ''Shares'', ''Share Price'',
      ''Total Value'', []]"

definition examplePositionRow :: "string \<Rightarrow> string \<Rightarrow> string list" where
  "examplePositionRow name ticker = [''12345'', name, ticker, ''10'', ''10'', ''100.00'', []]"

definition examplePosition :: "string \<Rightarrow> string \<Rightarrow> VanguardPosition" where
  "examplePosition name ticker =
     \<lparr>VanguardPosition.investmentName = name, VanguardPosition.symbol = ticker,
      VanguardPosition.shares = ''10'', VanguardPosition.sharePrice = ''10'',
      totalValue = ''100.00''\<rparr>"

text \<open>A name with tabulators around the percent sign.\<close>

definition tabName :: string where
  "tabName = [CHR ''A'', CHR 0x09, CHR ''%'', CHR 0x09, CHR ''B'']"

section \<open>Properties\<close>

subsection \<open>Computations that may raise\<close>

lemma andThen_Inr [simp]: "andThen (Inr x) f = f x"
  by (simp add: andThen_def)

lemma andThen_Inl [simp]: "andThen (Inl e) f = Inl e"
  by (simp add: andThen_def)

lemma andThen_Inr_iff: "andThen m f = Inr y \<longleftrightarrow> (\<exists>x. m = Inr x \<and> f x = Inr y)"
  by (cases m) simp_all


lemma orRaise_Inr_iff: "orRaise m e = Inr x \<longleftrightarrow> m = Some x"
  by (cases m) (simp_all add: orRaise_def)


lemma newStock_Inr: "newStock K s = Inr i \<Longrightarrow> i = Stock s USD"
  by (simp add: newStock_def split: if_splits)

lemma newBond_Inr: "newBond K s = Inr i \<Longrightarrow> i = Bond s USD"
  by (simp add: newBond_def split: if_splits)


lemma newTrade_Inr: "newTrade K a = Inr tr \<Longrightarrow> tr = a"
  by (simp add: newTrade_def split: if_splits)

lemma newPosition_Inr: "newPosition K a = Inr p \<Longrightarrow> p = a"
  by (simp add: newPosition_def split: if_splits)


text \<open>The definitions an example unfolds when it runs the adapter.\<close>

lemmas run_regex = re_match_def bondNamePattern_def newline_def isspace_def

lemmas run_example =
  parseVanguardTransaction_def validTransactionTypes_def flagsByTransactionType_def
  forceParseVanguardTransaction_def guessInstrumentForInvestmentName_def
  parseVanguardPosition_def parseVanguardPositionAndActivity_def
  exampleTransaction_def exampleCollaborators_def exampleTrade_def exampleActivity_def
  examplePosition_def orRaise_def newStock_def newBond_def newCash_def newTrade_def
  newPosition_def

lemmas run_file =
  parseTransactions_def parsePositions_def parsePositionsAndActivity_def
  parseSectionsForCSV_def transactionsCriterion_def positionsCriterion_def rowMatches_def
  slice_def clampIndex_def VanguardTransaction_make_def VanguardPosition_make_def
  exampleTransactionsHeader_def exampleTransactionRow_def examplePositionsHeader_def
  examplePositionRow_def isConversionError_def

subsection \<open>Transactions\<close>




lemma parse_Some_iff:
  "parseVanguardTransaction K t = Inr (Some tr) \<longleftrightarrow>
     (\<exists>fl. transactionType t \<in> validTransactionTypes \<and>
           flagsByTransactionType (transactionType t) = Some fl \<and>
           forceParseVanguardTransaction K t fl = Inr tr)"
  unfolding parseVanguardTransaction_def
  by (auto simp: andThen_Inr_iff orRaise_Inr_iff)





subsection \<open>Instruments\<close>

lemma matchItems_One:
  "matchItems (One cls # items) b s
     \<longleftrightarrow> (\<exists>c r. s = c # r \<and> inClass cls c \<and> matchItems items False r)"
  by (cases s) simp_all

lemma matchItems_OneOrMore:
  "matchItems (OneOrMore cls # items) b s
     \<longleftrightarrow> (\<exists>a r. s = a @ r \<and> a \<noteq> [] \<and> (\<forall>c\<in>set a. inClass cls c) \<and> matchItems items False r)"
proof (induction s arbitrary: b)
  case Nil
  show ?case by simp
next
  case (Cons c cs)
  show ?case
  proof
    assume "matchItems (OneOrMore cls # items) b (c # cs)"
    then have c: "inClass cls c"
      and alt: "matchItems (OneOrMore cls # items) False cs \<or> matchItems items False cs"
      by simp_all
    from alt show "\<exists>a r. c # cs = a @ r \<and> a \<noteq> [] \<and> (\<forall>c\<in>set a. inClass cls c) \<and>
                     matchItems items False r"
    proof
      assume "matchItems (OneOrMore cls # items) False cs"
      with Cons.IH obtain a r where "cs = a @ r" "\<forall>c\<in>set a. inClass cls c"
        "matchItems items False r" by blast
      with c have "c # cs = (c # a) @ r \<and> c # a \<noteq> [] \<and> (\<forall>x\<in>set (c # a). inClass cls x) \<and>
                     matchItems items False r" by simp
      then show ?thesis by blast
    next
      assume "matchItems items False cs"
      with c have "c # cs = [c] @ cs \<and> [c] \<noteq> [] \<and> (\<forall>x\<in>set [c]. inClass cls x) \<and>
                     matchItems items False cs" by simp
      then show ?thesis by blast
    qed
  next
    assume "\<exists>a r. c # cs = a @ r \<and> a \<noteq> [] \<and> (\<forall>c\<in>set a. inClass cls c) \<and>
              matchItems items False r"
    then obtain a r where split: "c # cs = a @ r" and ne: "a \<noteq> []"
      and cls: "\<forall>c\<in>set a. inClass cls c" and rest: "matchItems items False r" by blast
    from split ne obtain a' where a: "a = c # a'" and cs: "cs = a' @ r"
      by (cases a) auto
    show "matchItems (OneOrMore cls # items) b (c # cs)"
    proof (cases "a' = []")
      case True
      with a cs cls rest show ?thesis by simp
    next
      case False
      with a cs cls rest have "matchItems (OneOrMore cls # items) False cs"
        using Cons.IH [of False] by auto
      with a cls show ?thesis by simp
    qed
  qed
qed

text \<open>What the regular expression of the source accepts.\<close>

lemma bond_pattern_iff: "re_match bondNamePattern name \<longleftrightarrow> percentName name"
proof
  assume "re_match bondNamePattern name"
  then obtain X r1 where 1: "name = X @ r1" "X \<noteq> []" "\<forall>c\<in>set X. c \<noteq> newline"
    and m1: "matchItems [One Whitespace, One (Literal (CHR ''%'')), One Whitespace,
                         OneOrMore AnyChar, Eol] False r1"
    by (auto simp: re_match_def bondNamePattern_def matchItems_OneOrMore)
  from m1 obtain s1 r2 where 2: "r1 = s1 # r2" "isspace s1"
    and m2: "matchItems [One (Literal (CHR ''%'')), One Whitespace, OneOrMore AnyChar, Eol] False r2"
    by (auto simp: matchItems_One)
  from m2 obtain r3 where 3: "r2 = CHR ''%'' # r3"
    and m3: "matchItems [One Whitespace, OneOrMore AnyChar, Eol] False r3"
    by (auto simp: matchItems_One)
  from m3 obtain s2 r4 where 4: "r3 = s2 # r4" "isspace s2"
    and m4: "matchItems [OneOrMore AnyChar, Eol] False r4"
    by (auto simp: matchItems_One)
  from m4 obtain Y E where 5: "r4 = Y @ E" "Y \<noteq> []" "\<forall>c\<in>set Y. c \<noteq> newline"
    "E = [] \<or> E = [newline]"
    by (auto simp: matchItems_OneOrMore)
  from 1 2 3 4 5 have "name = X @ [s1] @ ''%'' @ [s2] @ Y @ E \<and>
        X \<noteq> [] \<and> newline \<notin> set X \<and> isspace s1 \<and> isspace s2 \<and>
        Y \<noteq> [] \<and> newline \<notin> set Y \<and> (E = [] \<or> E = [newline])"
    by auto
  then show "percentName name" unfolding percentName_def by blast
next
  assume "percentName name"
  then obtain X s1 s2 Y E where n: "name = X @ [s1] @ ''%'' @ [s2] @ Y @ E"
    and X: "X \<noteq> []" "newline \<notin> set X" and s: "isspace s1" "isspace s2"
    and Y: "Y \<noteq> []" "newline \<notin> set Y" and E: "E = [] \<or> E = [newline]"
    unfolding percentName_def by blast
  from Y E have m4: "matchItems [OneOrMore AnyChar, Eol] False (Y @ E)"
    unfolding matchItems_OneOrMore by (intro exI [of _ Y] exI [of _ E]) auto
  with s have m1: "matchItems [One Whitespace, One (Literal (CHR ''%'')), One Whitespace,
                         OneOrMore AnyChar, Eol] False ([s1] @ ''%'' @ [s2] @ Y @ E)"
    by simp
  have "matchItems (OneOrMore AnyChar # [One Whitespace, One (Literal (CHR ''%'')), One Whitespace,
                         OneOrMore AnyChar, Eol]) True name"
    unfolding matchItems_OneOrMore n using X m1
    by (intro exI [of _ X] exI [of _ "[s1] @ ''%'' @ [s2] @ Y @ E"]) auto
  then show "re_match bondNamePattern name"
    by (simp add: re_match_def bondNamePattern_def)
qed

lemma resolve_Inr:
  assumes "(if length ticker > 0 then newStock K ticker
            else guessInstrumentForInvestmentName K name) = Inr i"
  shows "i = resolvedInstrument ticker name"
  using assms
  by (auto simp: resolvedInstrument_def guessInstrumentForInvestmentName_def bond_pattern_iff
      dest: newStock_Inr newBond_Inr split: if_splits)

lemma force_instrument:
  assumes "forceParseVanguardTransaction K t fl = Inr tr"
  shows "Trade.instrument tr
           = resolvedInstrument (VanguardTransaction.symbol t) (VanguardTransaction.investmentName t)"
proof -
  from assms obtain i where
    i: "(if length (VanguardTransaction.symbol t) > 0 then newStock K (VanguardTransaction.symbol t)
         else guessInstrumentForInvestmentName K (VanguardTransaction.investmentName t)) = Inr i"
    and "Trade.instrument tr = i"
    unfolding forceParseVanguardTransaction_def
    by (auto simp: andThen_Inr_iff dest!: newTrade_Inr)
  with resolve_Inr [OF i] show ?thesis by simp
qed

lemma position_instrument:
  assumes "parseVanguardPosition K p activity = Inr pos"
  shows "positionInstrument pos
           = resolvedInstrument (VanguardPosition.symbol p) (VanguardPosition.investmentName p)"
proof -
  from assms obtain i where
    i: "(if length (VanguardPosition.symbol p) > 0 then newStock K (VanguardPosition.symbol p)
         else guessInstrumentForInvestmentName K (VanguardPosition.investmentName p)) = Inr i"
    and "positionInstrument pos = i"
    unfolding parseVanguardPosition_def
    by (auto simp: andThen_Inr_iff dest!: newPosition_Inr)
  with resolve_Inr [OF i] show ?thesis by simp
qed

text \<open>
  C2, as amended. For every transaction row and every position row that is converted,
  the instrument of the record is: a stock with the symbol field as its symbol when that
  field is not empty; otherwise a bond with the investment name as its symbol when the
  name is some text without a line break, a white-space character, a percent sign, a
  white-space character and some text without a line break, up to the end of the name or
  one last line break; otherwise a stock with the investment name as its symbol. The name
  "ABC Corp" is resolved by the stock constructor and the name "US TREAS 2.5 % 2030" by
  the bond constructor.
\<close>

theorem instrument_resolution:
  "(parseVanguardTransaction K t = Inr (Some tr) \<longrightarrow>
      Trade.instrument tr
        = resolvedInstrument (VanguardTransaction.symbol t) (VanguardTransaction.investmentName t)) \<and>
   (parseVanguardPosition K p activity = Inr pos \<longrightarrow>
      positionInstrument pos
        = resolvedInstrument (VanguardPosition.symbol p) (VanguardPosition.investmentName p)) \<and>
   guessInstrumentForInvestmentName K ''ABC Corp'' = newStock K ''ABC Corp'' \<and>
   resolvedInstrument [] ''ABC Corp'' = Stock ''ABC Corp'' USD \<and>
   guessInstrumentForInvestmentName K ''US TREAS 2.5 % 2030'' = newBond K ''US TREAS 2.5 % 2030'' \<and>
   resolvedInstrument [] ''US TREAS 2.5 % 2030'' = Bond ''US TREAS 2.5 % 2030'' USD"
proof -
  have "\<not> re_match bondNamePattern ''ABC Corp''"
    by (simp add: run_regex)
  moreover have "re_match bondNamePattern ''US TREAS 2.5 % 2030''"
    by (simp add: run_regex)
  ultimately show ?thesis
    by (auto simp: parse_Some_iff resolvedInstrument_def guessInstrumentForInvestmentName_def
        bond_pattern_iff [symmetric] dest: force_instrument position_instrument)
qed

text \<open>
  A "Buy" of the bond "US TREAS 2.5 % 2030", which has no symbol, and a position in
  "ABC Corp", which has none either.
\<close>

theorem instrument_resolution_witness:
  "parseVanguardTransaction exampleCollaborators
     ((exampleTransaction ''Buy'' ''Buy'' ''10'')
        \<lparr>VanguardTransaction.investmentName := ''US TREAS 2.5 % 2030'',
         VanguardTransaction.symbol := []\<rparr>)
     = Inr (Some ((exampleTrade 10 {OPEN}) \<lparr>instrument := Bond ''US TREAS 2.5 % 2030'' USD\<rparr>)) \<and>
   resolvedInstrument [] ''US TREAS 2.5 % 2030'' = Bond ''US TREAS 2.5 % 2030'' USD \<and>
   parseVanguardPosition exampleCollaborators (examplePosition ''ABC Corp'' [])
     [TradeActivity ((exampleTrade 10 {OPEN}) \<lparr>instrument := Stock ''ABC Corp'' USD\<rparr>)]
     = Inr \<lparr>positionInstrument = Stock ''ABC Corp'' USD, positionQuantity = 10,
            costBasis = \<lparr>currency = USD, cashQuantity = 105\<rparr>\<rparr> \<and>
   resolvedInstrument [] ''ABC Corp'' = Stock ''ABC Corp'' USD"
proof -
  have t: "parseVanguardTransaction exampleCollaborators
     ((exampleTransaction ''Buy'' ''Buy'' ''10'')
        \<lparr>VanguardTransaction.investmentName := ''US TREAS 2.5 % 2030'',
         VanguardTransaction.symbol := []\<rparr>)
     = Inr (Some ((exampleTrade 10 {OPEN}) \<lparr>instrument := Bond ''US TREAS 2.5 % 2030'' USD\<rparr>))"
    by (simp add: run_example run_regex)
  have p: "parseVanguardPosition exampleCollaborators (examplePosition ''ABC Corp'' [])
     [TradeActivity ((exampleTrade 10 {OPEN}) \<lparr>instrument := Stock ''ABC Corp'' USD\<rparr>)]
     = Inr \<lparr>positionInstrument = Stock ''ABC Corp'' USD, positionQuantity = 10,
            costBasis = \<lparr>currency = USD, cashQuantity = 105\<rparr>\<rparr>"
    by (simp add: run_example run_regex)
  from instrument_resolution [of exampleCollaborators] t p show ?thesis
    by simp
qed

text \<open>
  C2 as it is written fails on a name whose percent sign stands between tabulators: the
  name is not "some text, a space, a percent sign, a space, some text", and the source
  makes it a bond.
\<close>

theorem tab_separated_percent_is_bond:
  "\<not> spacePercentName tabName \<and>
   parseVanguardTransaction exampleCollaborators
     ((exampleTransaction ''Buy'' ''Buy'' ''10'')
        \<lparr>VanguardTransaction.investmentName := tabName, VanguardTransaction.symbol := []\<rparr>)
     = Inr (Some ((exampleTrade 10 {OPEN}) \<lparr>instrument := Bond tabName USD\<rparr>))"
proof -
  have "\<not> spacePercentName tabName"
  proof
    assume "spacePercentName tabName"
    then obtain X Y where "tabName = X @ '' % '' @ Y"
      unfolding spacePercentName_def by blast
    then have "set tabName = set (X @ '' % '' @ Y)" by (rule arg_cong)
    then have "CHR '' '' \<in> set tabName" by simp
    then show False by (simp add: tabName_def)
  qed
  then show ?thesis
    by (simp add: run_example run_regex tabName_def)
qed

subsection \<open>Row filters and named tuples\<close>

lemma slice_drop_ends: "slice r 1 (- 1) = butlast (tl r)"
  by (cases r) (simp_all add: slice_def clampIndex_def butlast_conv_take drop_Suc)

lemma slice_window: "slice r 1 6 = take 5 (drop 1 r)"
  by (simp add: slice_def clampIndex_def min_def)

lemma frame_of_row:
  assumes "2 \<le> length r"
  shows "r = hd r # butlast (tl r) @ [last r]"
proof -
  from assms obtain x xs where r: "r = x # xs" and xs: "xs \<noteq> []"
    by (cases r; cases "tl r") auto
  then show ?thesis by simp
qed

lemma butlast_tl_take: "butlast (tl r) = take (length r - 2) (drop 1 r)"
  by (cases r) (simp_all add: butlast_conv_take)

text \<open>
  C7. The row filter of the transactions drops the first and the last cell of a row and
  nothing else; a named tuple is made of the rest exactly when 13 cells are left, that
  is when the row has 15 cells, and then its 13 fields are the cells 1 to 13 of the row,
  in order. The row filter of the positions keeps the cells 1 to 5 of a row; a named
  tuple is made of them exactly when they are 5, that is when the row has 6 cells or
  more, and then its 5 fields are those cells, in order.
\<close>

theorem row_filters_and_arity:
  "rowFilter transactionsCriterion r = butlast (tl r) \<and>
   (2 \<le> length r \<longrightarrow> r = hd r # rowFilter transactionsCriterion r @ [last r]) \<and>
   ((\<exists>t. VanguardTransaction_make cells = Inr t) \<longleftrightarrow> length cells = 13) \<and>
   (VanguardTransaction_make (rowFilter transactionsCriterion r) = Inr t \<longrightarrow>
      length r = 15 \<and>
      tradeDate t = r ! 1 \<and> settlementDate t = r ! 2 \<and> transactionType t = r ! 3 \<and>
      transactionDescription t = r ! 4 \<and> VanguardTransaction.investmentName t = r ! 5 \<and>
      VanguardTransaction.symbol t = r ! 6 \<and> VanguardTransaction.shares t = r ! 7 \<and>
      VanguardTransaction.sharePrice t = r ! 8 \<and> principalAmount t = r ! 9 \<and>
      commissionFees t = r ! 10 \<and> netAmount t = r ! 11 \<and> accruedInterest t = r ! 12 \<and>
      accountType t = r ! 13) \<and>
   rowFilter positionsCriterion r = take 5 (drop 1 r) \<and>
   ((\<exists>p. VanguardPosition_make cells = Inr p) \<longleftrightarrow> length cells = 5) \<and>
   (VanguardPosition_make (rowFilter positionsCriterion r) = Inr p \<longrightarrow>
      6 \<le> length r \<and>
      VanguardPosition.investmentName p = r ! 1 \<and> VanguardPosition.symbol p = r ! 2 \<and>
      VanguardPosition.shares p = r ! 3 \<and> VanguardPosition.sharePrice p = r ! 4 \<and>
      totalValue p = r ! 5)"
proof -
  have tf: "rowFilter transactionsCriterion r = butlast (tl r)"
    by (simp add: transactionsCriterion_def slice_drop_ends)
  have pf: "rowFilter positionsCriterion r = take 5 (drop 1 r)"
    by (simp add: positionsCriterion_def slice_window)
  have frame: "2 \<le> length r \<longrightarrow> r = hd r # rowFilter transactionsCriterion r @ [last r]"
    unfolding tf using frame_of_row by blast
  have tm: "(\<exists>t. VanguardTransaction_make cells = Inr t) \<longleftrightarrow> length cells = 13"
    by (simp add: VanguardTransaction_make_def)
  have pm: "(\<exists>p. VanguardPosition_make cells = Inr p) \<longleftrightarrow> length cells = 5"
    by (simp add: VanguardPosition_make_def)
  have tfields: "length r = 15 \<and>
      tradeDate t = r ! 1 \<and> settlementDate t = r ! 2 \<and> transactionType t = r ! 3 \<and>
      transactionDescription t = r ! 4 \<and> VanguardTransaction.investmentName t = r ! 5 \<and>
      VanguardTransaction.symbol t = r ! 6 \<and> VanguardTransaction.shares t = r ! 7 \<and>
      VanguardTransaction.sharePrice t = r ! 8 \<and> principalAmount t = r ! 9 \<and>
      commissionFees t = r ! 10 \<and> netAmount t = r ! 11 \<and> accruedInterest t = r ! 12 \<and>
      accountType t = r ! 13"
    if mk: "VanguardTransaction_make (rowFilter transactionsCriterion r) = Inr t"
  proof -
    from mk have len: "length (butlast (tl r)) = 13" and
      t: "t = \<lparr>tradeDate = butlast (tl r) ! 0, settlementDate = butlast (tl r) ! 1,
                transactionType = butlast (tl r) ! 2, transactionDescription = butlast (tl r) ! 3,
                investmentName = butlast (tl r) ! 4, symbol = butlast (tl r) ! 5,
                shares = butlast (tl r) ! 6, sharePrice = butlast (tl r) ! 7,
                principalAmount = butlast (tl r) ! 8, commissionFees = butlast (tl r) ! 9,
                netAmount = butlast (tl r) ! 10, accruedInterest = butlast (tl r) ! 11,
                accountType = butlast (tl r) ! 12\<rparr>"
      unfolding tf by (auto simp: VanguardTransaction_make_def split: if_splits)
    from len have l15: "length r = 15" by simp
    show ?thesis unfolding t butlast_tl_take using l15
      by (simp add: numeral_2_eq_2 [symmetric] numeral_3_eq_3 [symmetric])
  qed
  have pfields: "6 \<le> length r \<and>
      VanguardPosition.investmentName p = r ! 1 \<and> VanguardPosition.symbol p = r ! 2 \<and>
      VanguardPosition.shares p = r ! 3 \<and> VanguardPosition.sharePrice p = r ! 4 \<and>
      totalValue p = r ! 5"
    if mk: "VanguardPosition_make (rowFilter positionsCriterion r) = Inr p"
  proof -
    from mk have len: "length (take 5 (drop 1 r)) = 5" and
      p: "p = \<lparr>VanguardPosition.investmentName = take 5 (drop 1 r) ! 0,
               VanguardPosition.symbol = take 5 (drop 1 r) ! 1,
               VanguardPosition.shares = take 5 (drop 1 r) ! 2,
               VanguardPosition.sharePrice = take 5 (drop 1 r) ! 3,
               totalValue = take 5 (drop 1 r) ! 4\<rparr>"
      unfolding pf by (auto simp: VanguardPosition_make_def split: if_splits)
    from len have l6: "6 \<le> length r" by simp
    show ?thesis unfolding p using l6
      by (simp add: numeral_2_eq_2 [symmetric] numeral_3_eq_3 [symmetric])
  qed
  from tf pf frame tm pm tfields pfields show ?thesis by blast
qed

text \<open>The example rows: 15 cells make a transaction, 7 cells make a position.\<close>

theorem row_filters_and_arity_witness:
  "VanguardTransaction_make (rowFilter transactionsCriterion (exampleTransactionRow ''Buy'' ''Buy'' ''10''))
     = Inr (exampleTransaction ''Buy'' ''Buy'' ''10'') \<and>
   length (exampleTransactionRow ''Buy'' ''Buy'' ''10'') = 15 \<and>
   transactionType (exampleTransaction ''Buy'' ''Buy'' ''10'')
     = exampleTransactionRow ''Buy'' ''Buy'' ''10'' ! 3 \<and>
   VanguardPosition_make (rowFilter positionsCriterion (examplePositionRow ''ABC Corp'' ''ABC''))
     = Inr (examplePosition ''ABC Corp'' ''ABC'') \<and>
   6 \<le> length (examplePositionRow ''ABC Corp'' ''ABC'') \<and>
   VanguardPosition.symbol (examplePosition ''ABC Corp'' ''ABC'')
     = examplePositionRow ''ABC Corp'' ''ABC'' ! 2"
proof -
  have t: "VanguardTransaction_make
             (rowFilter transactionsCriterion (exampleTransactionRow ''Buy'' ''Buy'' ''10''))
           = Inr (exampleTransaction ''Buy'' ''Buy'' ''10'')"
    by (simp add: run_file exampleTransaction_def)
  have p: "VanguardPosition_make
             (rowFilter positionsCriterion (examplePositionRow ''ABC Corp'' ''ABC''))
           = Inr (examplePosition ''ABC Corp'' ''ABC'')"
    by (simp add: run_file examplePosition_def)
  from row_filters_and_arity
         [of "exampleTransactionRow ''Buy'' ''Buy'' ''10''" _
             "exampleTransaction ''Buy'' ''Buy'' ''10''"]
       row_filters_and_arity
         [of "examplePositionRow ''ABC Corp'' ''ABC''" _ _ "examplePosition ''ABC Corp'' ''ABC''"]
       t p
  show ?thesis by simp
qed

subsection \<open>Sections\<close>

lemma foldl_not_started:
  assumes "\<forall>r\<in>set rs. \<not> rowMatches (startSectionRowMatch c) r"
  shows "foldl (\<lambda>st row. stepCriterion c row st) (NOT_STARTED, acc) rs = (NOT_STARTED, acc)"
  using assms by (induction rs) simp_all

lemma foldl_in_section:
  assumes "endSectionRowMatch c = []"
  shows "foldl (\<lambda>st row. stepCriterion c row st) (IN_SECTION, acc) rs
           = (IN_SECTION, acc @ map (rowFilter c) rs)"
  using assms by (induction rs arbitrary: acc) simp_all

lemma foldl_single:
  "foldl (\<lambda>states row. map2 (\<lambda>c st. stepCriterion c row st) [c] states) [st] rs
     = [foldl (\<lambda>st row. stepCriterion c row st) st rs]"
  by (induction rs arbitrary: st) simp_all

lemma sections_single:
  "parseSectionsForCSV csvfile [c]
     = [\<lparr>rows = snd (foldl (\<lambda>st row. stepCriterion c row st) (NOT_STARTED, []) csvfile)\<rparr>]"
  by (simp add: parseSectionsForCSV_def foldl_single)

lemma sections_absent:
  assumes "\<forall>r\<in>set csvfile. \<not> rowMatches (startSectionRowMatch c) r"
  shows "parseSectionsForCSV csvfile [c] = [\<lparr>rows = []\<rparr>]"
  using assms by (simp add: sections_single foldl_not_started)

lemma sections_opened:
  assumes "\<forall>r\<in>set pre. \<not> rowMatches (startSectionRowMatch c) r"
    and "rowMatches (startSectionRowMatch c) hdr"
    and "endSectionRowMatch c = []"
  shows "parseSectionsForCSV (pre @ hdr # body) [c] = [\<lparr>rows = map (rowFilter c) body\<rparr>]"
  using assms by (simp add: sections_single foldl_not_started foldl_in_section)

text \<open>
  C6. The criterion of the transactions starts at a row whose two leading cells are
  "Account Number" and "Trade Date", that of the positions at a row whose leading cell
  is "Account Number"; both end patterns are empty. A file none of whose rows matches
  the start pattern of a section gives the empty list for that section, and no error.
\<close>

theorem absent_section_is_empty:
  "startSectionRowMatch transactionsCriterion = [''Account Number'', ''Trade Date''] \<and>
   endSectionRowMatch transactionsCriterion = [] \<and>
   startSectionRowMatch positionsCriterion = [''Account Number''] \<and>
   endSectionRowMatch positionsCriterion = [] \<and>
   ((\<forall>r\<in>set csvfile. \<not> rowMatches [''Account Number'', ''Trade Date''] r) \<longrightarrow>
      parseTransactions K csvfile lenient = Inr []) \<and>
   ((\<forall>r\<in>set csvfile. \<not> rowMatches [''Account Number''] r) \<longrightarrow>
      parsePositions K csvfile activity lenient = Inr [])"
proof -
  have t: "parseTransactions K csvfile lenient = Inr []"
    if "\<forall>r\<in>set csvfile. \<not> rowMatches [''Account Number'', ''Trade Date''] r"
  proof -
    from that have "parseSectionsForCSV csvfile [transactionsCriterion] = [\<lparr>rows = []\<rparr>]"
      by (intro sections_absent) (simp add: transactionsCriterion_def)
    then show ?thesis by (simp add: parseTransactions_def)
  qed
  have p: "parsePositions K csvfile activity lenient = Inr []"
    if "\<forall>r\<in>set csvfile. \<not> rowMatches [''Account Number''] r"
  proof -
    from that have "parseSectionsForCSV csvfile [positionsCriterion] = [\<lparr>rows = []\<rparr>]"
      by (intro sections_absent) (simp add: positionsCriterion_def)
    then show ?thesis by (simp add: parsePositions_def)
  qed
  show ?thesis using t p by (simp add: transactionsCriterion_def positionsCriterion_def)
qed

text \<open>
  A file that has the positions only has no transactions; a file that has neither header
  has no positions.
\<close>

theorem absent_section_is_empty_witness:
  "parseTransactions exampleCollaborators
     [examplePositionsHeader, examplePositionRow ''ABC Corp'' ''ABC''] False = Inr [] \<and>
   parsePositions exampleCollaborators
     [exampleTransactionRow ''Buy'' ''Buy'' ''10''] exampleActivity False = Inr []"
proof -
  have t: "\<forall>r\<in>set [examplePositionsHeader, examplePositionRow ''ABC Corp'' ''ABC''].
             \<not> rowMatches [''Account Number'', ''Trade Date''] r"
    by (simp add: run_file)
  have p: "\<forall>r\<in>set [exampleTransactionRow ''Buy'' ''Buy'' ''10''].
             \<not> rowMatches [''Account Number''] r"
    by (simp add: run_file)
  from absent_section_is_empty
         [of "[examplePositionsHeader, examplePositionRow ''ABC Corp'' ''ABC'']"
             exampleCollaborators False] t
       absent_section_is_empty
         [of "[exampleTransactionRow ''Buy'' ''Buy'' ''10'']" exampleCollaborators False
             exampleActivity] p
  show ?thesis by blast
qed



subsection \<open>The transformer over the rows of a file\<close>

lemma lenientParse_append:
  "lenientParse (xs @ ys) f l
     = andThen (lenientParse xs f l) (\<lambda>a. andThen (lenientParse ys f l) (\<lambda>b. Inr (a @ b)))"
proof (induction xs)
  case Nil
  show ?case by (cases "lenientParse ys f l") simp_all
next
  case (Cons x xs)
  show ?case
  proof (cases x)
    case (Inl e)
    then show ?thesis by simp
  next
    case (Inr v)
    show ?thesis
    proof (cases "f v")
      case (Inl e)
      with Inr Cons show ?thesis by (cases l) simp_all
    next
      case r: (Inr y)
      with Inr Cons show ?thesis
        by (cases "lenientParse xs f l"; cases "lenientParse ys f l") simp_all
    qed
  qed
qed

lemma filterNone_append: "filterNone (xs @ ys) = filterNone xs @ filterNone ys"
  by (induction xs rule: filterNone.induct) simp_all

lemma lenientParse_skip_null:
  assumes "f t = Inr None"
  shows "andThen (lenientParse (xs @ Inr t # ys) f l) (\<lambda>ps. Inr (g (filterNone ps)))
           = andThen (lenientParse (xs @ ys) f l) (\<lambda>ps. Inr (g (filterNone ps)))"
proof -
  have one: "lenientParse (Inr t # ys) f l
               = andThen (lenientParse ys f l) (\<lambda>b. Inr (None # b))"
    using assms by simp
  show ?thesis
    unfolding lenientParse_append one
    by (cases "lenientParse xs f l"; cases "lenientParse ys f l")
       (simp_all add: filterNone_append)
qed




lemma parseTransactions_opened:
  assumes "\<forall>r\<in>set pre. \<not> rowMatches [''Account Number'', ''Trade Date''] r"
    and "rowMatches [''Account Number'', ''Trade Date''] hdr"
  shows "parseTransactions K (pre @ hdr # body) lenient
           = andThen (lenientParse
                        (map (\<lambda>r. VanguardTransaction_make (slice r 1 (- 1))) body)
                        (parseVanguardTransaction K) lenient)
               (\<lambda>parsed. Inr (map TradeActivity (filterNone parsed)))"
proof -
  have "parseSectionsForCSV (pre @ hdr # body) [transactionsCriterion]
          = [\<lparr>rows = map (rowFilter transactionsCriterion) body\<rparr>]"
    using assms by (intro sections_opened) (simp_all add: transactionsCriterion_def)
  then show ?thesis
    by (simp add: parseTransactions_def transactionsCriterion_def comp_def)
qed


text \<open>The example files, run.\<close>

lemma example_transactions:
  "parseTransactions exampleCollaborators
     [exampleTransactionsHeader, exampleTransactionRow ''Buy'' ''Buy'' ''10''] lenient
     = Inr exampleActivity"
  by (simp add: run_file run_example)

lemma example_transactions_with_fee:
  "parseTransactions exampleCollaborators
     [exampleTransactionsHeader, exampleTransactionRow ''Buy'' ''Buy'' ''10'',
      exampleTransactionRow ''Fee'' ''Fee'' ''10''] lenient
     = Inr exampleActivity"
  by (simp add: run_file run_example)

text \<open>
  C4. A transaction row whose type is none of the five recognized types is converted to
  the null result, whatever the collaborators do with its fields: nothing is raised.
  In the activity list the row leaves no trace: the file with the row and the file
  without it give the same result, in lenient mode and in strict mode alike.
\<close>

theorem unrecognized_type_is_skipped:
  assumes "transactionType t \<notin>
             {''Buy'', ''Sell'', ''Reinvestment'', ''Corp Action (Redemption)'',
              ''Transfer (outgoing)''}"
  shows "parseVanguardTransaction K t = Inr None \<and>
         ((\<forall>r\<in>set pre. \<not> rowMatches [''Account Number'', ''Trade Date''] r) \<and>
          rowMatches [''Account Number'', ''Trade Date''] hdr \<and>
          VanguardTransaction_make (rowFilter transactionsCriterion row) = Inr t \<longrightarrow>
            parseTransactions K (pre @ hdr # before @ row # after) lenient
              = parseTransactions K (pre @ hdr # before @ after) lenient)"
proof -
  have null: "parseVanguardTransaction K t = Inr None"
    using assms by (simp add: parseVanguardTransaction_def validTransactionTypes_def)
  have "parseTransactions K (pre @ hdr # before @ row # after) lenient
          = parseTransactions K (pre @ hdr # before @ after) lenient"
    if pre: "\<forall>r\<in>set pre. \<not> rowMatches [''Account Number'', ''Trade Date''] r"
      and hdr: "rowMatches [''Account Number'', ''Trade Date''] hdr"
      and mk: "VanguardTransaction_make (rowFilter transactionsCriterion row) = Inr t"
  proof -
    from mk have mk': "VanguardTransaction_make (slice row 1 (- 1)) = Inr t"
      by (simp add: transactionsCriterion_def)
    show ?thesis
      unfolding parseTransactions_opened [OF pre hdr]
      by (simp add: mk' lenientParse_skip_null
            [where g = "map TradeActivity" and f = "parseVanguardTransaction K" and t = t,
             OF null])
  qed
  with null show ?thesis by blast
qed

text \<open>A "Fee" row after a "Buy" row: the activity is the one trade of the "Buy" row.\<close>

theorem unrecognized_type_is_skipped_witness:
  "parseVanguardTransaction exampleCollaborators (exampleTransaction ''Fee'' ''Fee'' ''10'')
     = Inr None \<and>
   parseTransactions exampleCollaborators
     [exampleTransactionsHeader, exampleTransactionRow ''Buy'' ''Buy'' ''10'',
      exampleTransactionRow ''Fee'' ''Fee'' ''10''] False
     = parseTransactions exampleCollaborators
         [exampleTransactionsHeader, exampleTransactionRow ''Buy'' ''Buy'' ''10''] False \<and>
   parseTransactions exampleCollaborators
     [exampleTransactionsHeader, exampleTransactionRow ''Buy'' ''Buy'' ''10''] False
     = Inr exampleActivity"
proof -
  have ty: "transactionType (exampleTransaction ''Fee'' ''Fee'' ''10'') \<notin>
              {''Buy'', ''Sell'', ''Reinvestment'', ''Corp Action (Redemption)'',
               ''Transfer (outgoing)''}"
    by (simp add: exampleTransaction_def)
  have hdr: "rowMatches [''Account Number'', ''Trade Date''] exampleTransactionsHeader"
    by (simp add: run_file)
  have mk: "VanguardTransaction_make
              (rowFilter transactionsCriterion (exampleTransactionRow ''Fee'' ''Fee'' ''10''))
            = Inr (exampleTransaction ''Fee'' ''Fee'' ''10'')"
    by (simp add: run_file exampleTransaction_def)
  from unrecognized_type_is_skipped
         [OF ty, of exampleCollaborators "[]" exampleTransactionsHeader
            "exampleTransactionRow ''Fee'' ''Fee'' ''10''"
            "[exampleTransactionRow ''Buy'' ''Buy'' ''10'']" "[]" False]
       hdr mk example_transactions [of False]
  show ?thesis by simp
qed




text \<open>
  C10. Every record of the activity list is a trade, whatever the file and the mode:
  in the list \<^verbatim>\<open>__parseTransactions\<close> returns, and in the list the top-level parse
  returns. No dividend payment is ever made.
\<close>

theorem activity_is_trades_only:
  "(parseTransactions K csvfile lenient = Inr activity \<longrightarrow>
      (\<forall>a\<in>set activity. \<exists>tr. a = TradeActivity tr)) \<and>
   (parsePositionsAndActivity K csvfile lenient = Inr (positions, activity) \<longrightarrow>
      (\<forall>a\<in>set activity. \<exists>tr. a = TradeActivity tr))"
proof -
  have one: "\<forall>a\<in>set acts. \<exists>tr. a = TradeActivity tr"
    if "parseTransactions K csvfile lenient = Inr acts" for acts
    using that
    by (auto simp: parseTransactions_def Let_def andThen_Inr_iff split: if_splits)
  show ?thesis
    by (auto simp: parsePositionsAndActivity_def andThen_Inr_iff dest: one)
qed

text \<open>
  The file of a "Buy" row and a "Fee" row, parsed leniently from the top: one trade, and
  no position, since the section of the positions is made of the two transaction rows.
\<close>

theorem activity_is_trades_only_witness:
  "parsePositionsAndActivity exampleCollaborators
     [exampleTransactionsHeader, exampleTransactionRow ''Buy'' ''Buy'' ''10'',
      exampleTransactionRow ''Fee'' ''Fee'' ''10''] True
     = Inr ([], [TradeActivity (exampleTrade 10 {OPEN})]) \<and>
   (\<exists>tr. TradeActivity (exampleTrade 10 {OPEN}) = TradeActivity tr)"
proof -
  have positions: "parsePositions exampleCollaborators
     [exampleTransactionsHeader, exampleTransactionRow ''Buy'' ''Buy'' ''10'',
      exampleTransactionRow ''Fee'' ''Fee'' ''10''] exampleActivity True = Inr []"
    by (simp add: run_file run_example)
  have run: "parsePositionsAndActivity exampleCollaborators
     [exampleTransactionsHeader, exampleTransactionRow ''Buy'' ''Buy'' ''10'',
      exampleTransactionRow ''Fee'' ''Fee'' ''10''] True
     = Inr ([], [TradeActivity (exampleTrade 10 {OPEN})])"
    unfolding parsePositionsAndActivity_def example_transactions_with_fee
    by (simp add: positions) (simp add: exampleActivity_def)
  from activity_is_trades_only
         [of exampleCollaborators _ True "[TradeActivity (exampleTrade 10 {OPEN})]" "[]"] run
  show ?thesis by simp
qed

subsection \<open>Positions\<close>





end
